theory Spec2Isabelle
  imports Complex_Main "HOL-Library.Word"
begin

unbundle bit_operations_syntax

section \<open>Numbers, vectors and matrices\<close>

text \<open>
  The pipeline computes on C++ \<^verbatim>\<open>double\<close>s. Every pose that reaches the arithmetic
  has passed \<^verbatim>\<open>nan_check\<close>, so the model's numbers are the finite ones, taken as
  \<^typ>\<open>real\<close>: rounding and overflow are left out, and a NaN or an infinity handed
  in by a collaborator is the value \<open>None\<close> at the place where it enters.

  \<^verbatim>\<open>Pose\<close> is a vector of six doubles, \<^verbatim>\<open>euler_t\<close> one of three, \<^verbatim>\<open>rmat\<close> a
  3x3 matrix. They are lists here (a matrix is the list of its rows); the C++ types fix
  the lengths, which the theorems state as hypotheses.
\<close>

type_synonym Pose = "real list"
type_synonym euler_t = "real list"
type_synonym rmat = "real list list"

text \<open>The axis indices of \<^verbatim>\<open>enum Axis\<close>.\<close>

definition TX :: nat where "TX = 0"
definition TY :: nat where "TY = 1"
definition TZ :: nat where "TZ = 2"
definition Yaw :: nat where "Yaw = 3"
definition Pitch :: nat where "Pitch = 4"
definition Roll :: nat where "Roll = 5"

text \<open>
  \<^verbatim>\<open>std::fmod(x, y)\<close>: \<open>x - n * y\<close> with \<open>n\<close> the quotient \<open>x / y\<close> truncated towards
  zero, so the result has the sign of \<open>x\<close>. \<^verbatim>\<open>std::copysign(a, x)\<close>: the magnitude of
  \<open>a\<close> with the sign of \<open>x\<close>.
\<close>

definition trunc :: "real \<Rightarrow> int" where
  "trunc x = (if 0 \<le> x then \<lfloor>x\<rfloor> else \<lceil>x\<rceil>)"

definition fmod :: "real \<Rightarrow> real \<Rightarrow> real" where
  "fmod x y = x - of_int (trunc (x / y)) * y"

definition copysign :: "real \<Rightarrow> real \<Rightarrow> real" where
  "copysign a x = (if x < 0 then - \<bar>a\<bar> else \<bar>a\<bar>)"

text \<open>
  Modelled from the spec: \<^verbatim>\<open>clamp\<close> is declared in \<^verbatim>\<open>compat/math.hpp\<close>, which is not
  part of the sources at hand; the spec calls it a hard clamp to the closed interval.
\<close>

definition clamp :: "real \<Rightarrow> real \<Rightarrow> real \<Rightarrow> real" where
  "clamp x lo hi = (if x > hi then hi else if x < lo then lo else x)"


definition r2d :: real where "r2d = 180 / pi"
definition d2r :: real where "d2r = pi / 180"

text \<open>
  The vector and matrix classes live in \<^verbatim>\<open>compat/simple-mat.hpp\<close>, outside the sources
  at hand; only their componentwise sum, difference and scaling, the matrix product,
  the transpose and the identity are used, with their usual meaning.
\<close>

definition vadd :: "real list \<Rightarrow> real list \<Rightarrow> real list" where
  "vadd a c = map2 (+) a c"

definition vsub :: "real list \<Rightarrow> real list \<Rightarrow> real list" where
  "vsub a c = map2 (-) a c"

definition vscale :: "real list \<Rightarrow> real \<Rightarrow> real list" where
  "vscale a c = map (\<lambda>x. x * c) a"

definition dot :: "real list \<Rightarrow> real list \<Rightarrow> real" where
  "dot a c = sum_list (map2 (*) a c)"

definition mat_vec :: "rmat \<Rightarrow> real list \<Rightarrow> real list" where
  "mat_vec R v = map (\<lambda>row. dot row v) R"

definition mat_mul :: "rmat \<Rightarrow> rmat \<Rightarrow> rmat" where
  "mat_mul A B = map (\<lambda>row. map (\<lambda>col. dot row col) (transpose B)) A"

definition eye :: rmat where
  "eye = [[1, 0, 0], [0, 1, 0], [0, 0, 1]]"

section \<open>The collaborators of one cycle\<close>

text \<open>
  What a cycle receives from outside \<^verbatim>\<open>pipeline.cpp\<close>, as one record:
  \<^item> \<open>euler_to_rmat\<close>, \<open>rmat_to_euler\<close>, \<open>scale_c\<close>, \<open>scale_inv_c\<close>: functions and
    constants of headers that are not at hand, taken as parameters;
  \<^item> \<open>interp_elapsed\<close>, \<open>phase_elapsed\<close>: what \<^verbatim>\<open>interp_timer.elapsed_seconds()\<close> and
    \<^verbatim>\<open>interp_phase_timer.elapsed_seconds()\<close> return in this cycle. The timers enter the
    computation through these two readings only, so the timer objects themselves and
    their \<^verbatim>\<open>start()\<close> calls are not part of the state;
  \<^item> \<open>tracker_data\<close>: the pose \<^verbatim>\<open>pTracker->data\<close> delivers, \<open>None\<close> when one of its
    components is a NaN or infinite; \<open>tracker_center\<close>: the answer of
    \<^verbatim>\<open>pTracker->center()\<close>;
  \<^item> \<open>pFilter\<close>: the filter plugin if there is one, as the function from its input to
    its output in this cycle (\<open>None\<close>: an output with a NaN or infinite component);
  \<^item> \<open>spline_main\<close>, \<open>spline_alt\<close>: \<^verbatim>\<open>get_value\<close> of the two curves of each axis
    (\<open>None\<close>: a NaN or infinite result).
  Event hooks and the logger only observe poses and are left out, as is the display
  state of the curves (\<^verbatim>\<open>set_tracking_active\<close>).
\<close>

record ext =
  euler_to_rmat :: "euler_t \<Rightarrow> rmat"
  rmat_to_euler :: "rmat \<Rightarrow> euler_t"
  scale_c :: real
  scale_inv_c :: real
  interp_elapsed :: real
  phase_elapsed :: real
  tracker_data :: "Pose option"
  tracker_center :: bool
  pFilter :: "(Pose \<Rightarrow> Pose option) option"
  spline_main :: "nat \<Rightarrow> real \<Rightarrow> real option"
  spline_alt :: "nat \<Rightarrow> real \<Rightarrow> real option"

section \<open>The relative-translation compensator\<close>

text \<open>
  Modelled from the spec: the enumeration \<^verbatim>\<open>reltrans_state\<close> is declared outside
  \<^verbatim>\<open>pipeline.cpp\<close>, which names \<^verbatim>\<open>reltrans_disabled\<close> and \<^verbatim>\<open>reltrans_non_center\<close>
  only. The spec has three modes, Disabled, AlwaysOn and ZoneTriggered;
  \<open>reltrans_enabled\<close> stands for AlwaysOn and \<open>reltrans_non_center\<close> is ZoneTriggered,
  the mode in which the code evaluates the zone predicate.
\<close>

datatype reltrans_state = reltrans_disabled | reltrans_enabled | reltrans_non_center

text \<open>
  The members of \<^verbatim>\<open>class reltrans\<close> that \<^verbatim>\<open>pipeline.cpp\<close> reads and writes.
  \<open>RC_stage\<close> indexes the table \<open>RC_stages\<close>; a read past the end of a table is
  undefined in C++ and unspecified here, and \<open>RC_stage r < 5\<close> is the invariant that
  excludes it.
\<close>

record reltrans =
  interp_pos :: euler_t
  in_zone :: bool
  cur :: bool
  RC_stage :: nat

definition on_center :: "reltrans \<Rightarrow> reltrans" where
  "on_center r = r\<lparr>interp_pos := [0, 0, 0], in_zone := False, cur := False\<rparr>"

text \<open>
  \<^verbatim>\<open>reltrans::rotate\<close> (the name \<open>rotate\<close> is taken by the list library). The
  local enumeration is \<^verbatim>\<open>tb_Z = 0, tb_X = 1, tb_Y = 2\<close>.
\<close>

definition reltrans_rotate :: "rmat \<Rightarrow> euler_t \<Rightarrow> bool list \<Rightarrow> euler_t" where
  "reltrans_rotate R inp disable =
     (let ret = mat_vec R [inp ! TZ, - (inp ! TX), - (inp ! TY)]
      in [if disable ! TX then inp ! TX else - (ret ! 1),
          if disable ! TY then inp ! TY else - (ret ! 2),
          if disable ! TZ then inp ! TZ else ret ! 0])"

definition apply_neck :: "rmat \<Rightarrow> int \<Rightarrow> bool \<Rightarrow> euler_t" where
  "apply_neck R nz disable_tz =
     (let neck = reltrans_rotate R [0, 0, of_int nz] [False, False, False];
          neck1 = neck[TZ := neck ! TZ - of_int nz]
      in if disable_tz then neck1[TZ := 0] else neck1)"

definition RC_stages :: "real list" where
  "RC_stages = [2, 1, 5 / 10, 1 / 10, 5 / 100]"

definition RC_time_deltas :: "real list" where
  "RC_time_deltas = [1, 25 / 100, 25 / 100, 2]"

text \<open>
  \<^verbatim>\<open>reltrans::apply_pipeline\<close>, block by block. \<open>zone_test\<close> is the value of
  \<^verbatim>\<open>in_zone_\<close> (lines 80-88).
\<close>

definition zone_test :: "reltrans_state \<Rightarrow> Pose \<Rightarrow> bool" where
  "zone_test state val =
     (if state = reltrans_non_center
      then (let looking_down = val ! Pitch < 20
            in if looking_down then \<bar>val ! Yaw\<bar> > 35 else \<bar>val ! Yaw\<bar> > 65)
      else True)"

text \<open>Lines 90-99: a change of zone membership outside a transition starts one.\<close>

definition arm :: "bool \<Rightarrow> reltrans \<Rightarrow> reltrans" where
  "arm in_zone' r =
     (let r1 = (if \<not> cur r \<and> in_zone r \<noteq> in_zone'
                then r\<lparr>cur := True, RC_stage := 0\<rparr> else r)
      in r1\<lparr>in_zone := in_zone'\<rparr>)"

text \<open>
  Lines 101-119: the translation \<open>rel\<close> after the block that runs in the zone, with
  the neck model nested inside it.
\<close>

definition zone_block ::
  "ext \<Rightarrow> reltrans_state \<Rightarrow> Pose \<Rightarrow> bool list \<Rightarrow> bool \<Rightarrow> int \<Rightarrow> reltrans \<Rightarrow> euler_t \<Rightarrow> euler_t" where
  "zone_block e state val disable neck_en nz r rel =
     (if in_zone r then
        (let R = euler_to_rmat e
                   [val ! Yaw * d2r * of_bool (\<not> disable ! Yaw),
                    val ! Pitch * d2r * of_bool (\<not> disable ! Pitch),
                    val ! Roll * d2r * of_bool (\<not> disable ! Roll)];
             rel1 = reltrans_rotate R rel (take 3 disable)
         in if neck_en \<and> (state \<noteq> reltrans_non_center \<or> \<not> in_zone r)
            then (let neck = apply_neck R (- nz) (disable ! TZ)
                  in fold (\<lambda>k v. v[k := v ! k + neck ! k]) [0..<3] rel1)
            else rel1)
      else rel)"

text \<open>Lines 121-157: the staged low-pass filter, or the re-seeding of its accumulator.\<close>

definition interpolate :: "ext \<Rightarrow> euler_t \<Rightarrow> reltrans \<Rightarrow> euler_t \<times> reltrans" where
  "interpolate e rel r =
     (if cur r then
        (let dt = interp_elapsed e;
             r1 = (if RC_stage r + 1 < length RC_stages \<and>
                      phase_elapsed e > RC_time_deltas ! RC_stage r
                   then r\<lparr>RC_stage := RC_stage r + 1\<rparr> else r);
             RC = RC_stages ! RC_stage r1;
             alpha = dt / (dt + RC);
             eps = 1 / 100;
             r2 = r1\<lparr>interp_pos := vadd (vscale (interp_pos r1) (1 - alpha)) (vscale rel alpha)\<rparr>;
             tmp = vsub rel (interp_pos r2);
             delta = \<bar>tmp ! 0\<bar> + \<bar>tmp ! 1\<bar> + \<bar>tmp ! 2\<bar>
         in (interp_pos r2, if delta < eps then r2\<lparr>cur := False\<rparr> else r2))
      else (rel, r\<lparr>interp_pos := rel\<rparr>))"

definition apply_pipeline ::
  "ext \<Rightarrow> reltrans_state \<Rightarrow> Pose \<Rightarrow> bool list \<Rightarrow> bool \<Rightarrow> int \<Rightarrow> reltrans \<Rightarrow> Pose \<times> reltrans" where
  "apply_pipeline e state val disable neck_en nz r =
     (let rel = take 3 val
      in if state \<noteq> reltrans_disabled then
           (let in_zone' = zone_test state val;
                r1 = arm in_zone' r;
                rel1 = zone_block e state val disable neck_en nz r1 rel;
                (rel2, r2) = interpolate e rel1 r1
            in ([rel2 ! TX, rel2 ! TY, rel2 ! TZ, val ! Yaw, val ! Pitch, val ! Roll], r2))
         else
           ([rel ! TX, rel ! TY, rel ! TZ, val ! Yaw, val ! Pitch, val ! Roll],
            r\<lparr>cur := False, in_zone := False\<rparr>))"

section \<open>Command flags\<close>

text \<open>
  Modelled from the spec: the flag masks of \<^verbatim>\<open>enum bit_flags\<close> are declared in
  \<^verbatim>\<open>pipeline.hpp\<close>, which is not at hand. The spec has a bit-addressable set
  \<open>{Center, HeldCenter, EnabledPersistent, EnabledHold, Zero}\<close>; each flag is one bit
  of the unsigned word, in that order.
\<close>

definition f_center :: "32 word" where "f_center = 1"
definition f_held_center :: "32 word" where "f_held_center = 2"
definition f_enabled_p :: "32 word" where "f_enabled_p = 4"
definition f_enabled_h :: "32 word" where "f_enabled_h = 8"
definition f_zero :: "32 word" where "f_zero = 16"

text \<open>
  \<^verbatim>\<open>bits::set\<close>, \<^verbatim>\<open>bits::negate\<close> and \<^verbatim>\<open>bits::get\<close> on the word the atomic holds:
  each compare-and-exchange loop ends having replaced the word it read by the new one.
\<close>

definition bits_set :: "32 word \<Rightarrow> 32 word \<Rightarrow> bool \<Rightarrow> 32 word" where
  "bits_set w flag v = (w AND NOT flag) OR (flag * of_bool v)"

definition bits_negate :: "32 word \<Rightarrow> 32 word \<Rightarrow> 32 word" where
  "bits_negate w flag = w XOR flag"

definition bits_get :: "32 word \<Rightarrow> 32 word \<Rightarrow> bool" where
  "bits_get w flag = (w AND flag \<noteq> 0)"

definition bits_init :: "32 word" where
  "bits_init =
     bits_set (bits_set (bits_set (bits_set (bits_set 0 f_center False) f_held_center False)
       f_enabled_p True) f_enabled_h True) f_zero False"

section \<open>The pipeline\<close>

text \<open>The options of one axis (\<^verbatim>\<open>m(i).opts\<close>) and the settings \<^verbatim>\<open>s\<close> the cycle reads.\<close>

record axis_opts =
  opts_src :: int
  opts_invert :: bool
  opts_zero :: real
  opts_altp :: bool

record settings =
  s_center_at_startup :: bool
  s_reltrans_mode :: reltrans_state
  s_reltrans_disable_tx :: bool
  s_reltrans_disable_ty :: bool
  s_reltrans_disable_tz :: bool
  s_reltrans_disable_src_yaw :: bool
  s_reltrans_disable_src_pitch :: bool
  s_reltrans_disable_src_roll :: bool
  s_neck_enable :: bool
  s_neck_z :: int

record scaled_state_t =
  rotation :: rmat
  inv_rot_center :: rmat
  t_center :: euler_t

text \<open>
  The members of \<^verbatim>\<open>class pipeline\<close> that a cycle reads and writes: \<open>p_rel\<close> is the
  compensator \<^verbatim>\<open>rel\<close>, \<open>p_b\<close> the flag word \<^verbatim>\<open>b\<close>, and \<open>output_pose\<close> with
  \<open>raw_6dof\<close> the shared output state. The member \<^verbatim>\<open>newpose\<close> is written at the start
  of every cycle before it is read and is a local value here.
\<close>

record pipeline =
  p_rel :: reltrans
  scaled_state :: scaled_state_t
  output_pose :: Pose
  raw_6dof :: Pose
  tracking_started :: bool
  p_b :: "32 word"

text \<open>\<^verbatim>\<open>pipeline::map\<close> (the name \<open>map\<close> is taken by the list library).\<close>

definition pipeline_map :: "ext \<Rightarrow> axis_opts list \<Rightarrow> real \<Rightarrow> nat \<Rightarrow> real option" where
  "pipeline_map e m pos i =
     (let altp = pos < 0 \<and> opts_altp (m ! i)
      in if altp then spline_alt e i pos else spline_main e i pos)"

text \<open>
  The two loops \<^verbatim>\<open>value(i) = map(value(i), m(i))\<close> over a range of axes. A curve result
  that is not finite ends the loop with \<open>None\<close>: the cycle then takes the freeze path.
  (For the translation axes the check follows the loop at once. For the rotation axes
  the C++ code carries the value through \<^verbatim>\<open>apply_reltrans\<close> up to the same check.)
\<close>

fun map_axes :: "ext \<Rightarrow> axis_opts list \<Rightarrow> nat list \<Rightarrow> Pose \<Rightarrow> Pose option" where
  "map_axes e m [] val = Some val"
| "map_axes e m (i # is) val =
     (case pipeline_map e m (val ! i) i of
        None \<Rightarrow> None
      | Some y \<Rightarrow> map_axes e m is (val[i := y]))"

definition maybe_enable_center_on_tracking_started ::
  "settings \<Rightarrow> Pose \<Rightarrow> pipeline \<Rightarrow> bool \<times> pipeline" where
  "maybe_enable_center_on_tracking_started s newpose p =
     (if \<not> tracking_started p then
        (let p1 = (if list_ex (\<lambda>i. \<bar>newpose ! i\<bar> \<noteq> 0) [0..<6]
                   then p\<lparr>tracking_started := True\<rparr> else p)
         in if tracking_started p1 \<and> s_center_at_startup s
            then (True, p1\<lparr>p_b := bits_set (p_b p1) f_center True\<rparr>)
            else (False, p1))
      else (False, p))"

definition maybe_set_center_pose :: "Pose \<Rightarrow> bool \<Rightarrow> pipeline \<Rightarrow> pipeline" where
  "maybe_set_center_pose val own_center_logic p =
     (if bits_get (p_b p) (f_center OR f_held_center) then
        (if own_center_logic
         then p\<lparr>scaled_state := (scaled_state p)\<lparr>inv_rot_center := eye, t_center := [0, 0, 0]\<rparr>\<rparr>
         else p\<lparr>scaled_state := (scaled_state p)
                  \<lparr>inv_rot_center := transpose (rotation (scaled_state p)),
                   t_center := take 3 val\<rparr>\<rparr>)
      else p)"

definition store_tracker_pose :: "ext \<Rightarrow> Pose \<Rightarrow> pipeline \<Rightarrow> pipeline" where
  "store_tracker_pose e val p =
     p\<lparr>scaled_state := (scaled_state p)
         \<lparr>rotation := euler_to_rmat e
            (vscale [val ! Yaw, val ! Pitch, val ! Roll] (scale_inv_c e * d2r))\<rparr>\<rparr>"

section \<open>Pose utilities\<close>

text \<open>
  \<^verbatim>\<open>pipeline::clamp_value\<close>. \<open>clamp_axis\<close> is the body of its loop: the slot is reduced
  with \<open>fmod\<close>, the reduced value is kept in \<open>x\<close>, an over-range \<open>x\<close> is folded back into
  the slot, and then the slot is assigned \<open>clamp x (-180) 180\<close>, computed from \<open>x\<close>.
\<close>

definition clamp_axis :: "nat \<Rightarrow> Pose \<Rightarrow> Pose" where
  "clamp_axis i val =
     (let val1 = val[i := fmod (val ! i) 360];
          x = val1 ! i;
          val2 = (if \<bar>x\<bar> - 1 / 100 > 180
                  then val1[i := fmod (x + copysign 180 x) 360 - copysign 180 x]
                  else val1)
      in val2[i := clamp x (- 180) 180])"

definition clamp_value :: "Pose \<Rightarrow> Pose" where
  "clamp_value val = fold clamp_axis [3..<6] val"


definition apply_center :: "ext \<Rightarrow> axis_opts list \<Rightarrow> pipeline \<Rightarrow> Pose \<Rightarrow> Pose" where
  "apply_center e m p val =
     (let T0 = vsub (take 3 val) (t_center (scaled_state p));
          R0 = vscale (rmat_to_euler e
                 (mat_mul (rotation (scaled_state p)) (inv_rot_center (scaled_state p))))
                 (d2r * scale_c e);
          T1 = reltrans_rotate (euler_to_rmat e R0) T0 [False, False, False];
          R1 = map (\<lambda>i. if opts_invert (m ! (i + 3)) then - (R0 ! i) else R0 ! i) [0..<3];
          T2 = map (\<lambda>i. if opts_invert (m ! i) then - (T1 ! i) else T1 ! i) [0..<3]
      in T2 @ map (\<lambda>x. x * r2d) R1)"

definition get_selected_axis_values ::
  "axis_opts list \<Rightarrow> Pose \<Rightarrow> Pose \<times> Pose \<times> bool list" where
  "get_selected_axis_values m newpose =
     (newpose,
      map (\<lambda>i. let k = opts_src (m ! i)
                in if k < 0 \<or> k \<ge> 6 then 0 else newpose ! nat k) [0..<6],
      map (\<lambda>i. opts_src (m ! i) = 6) [0..<6])"

text \<open>
  \<^verbatim>\<open>pipeline::maybe_apply_filter\<close> together with the \<^verbatim>\<open>nan_check(tmp)\<close> that follows it:
  \<open>None\<close> is a filter output that fails the check.
\<close>

definition maybe_apply_filter :: "ext \<Rightarrow> Pose \<Rightarrow> Pose option" where
  "maybe_apply_filter e val = (case pFilter e of None \<Rightarrow> Some val | Some f \<Rightarrow> f val)"

definition apply_zero_pos :: "axis_opts list \<Rightarrow> Pose \<Rightarrow> Pose" where
  "apply_zero_pos m val =
     fold (\<lambda>i v. v[i := v ! i + opts_zero (m ! i) * (if opts_invert (m ! i) then - 1 else 1)])
       [0..<6] val"

definition apply_reltrans ::
  "ext \<Rightarrow> settings \<Rightarrow> Pose \<Rightarrow> bool list \<Rightarrow> bool \<Rightarrow> reltrans \<Rightarrow> Pose \<times> reltrans" where
  "apply_reltrans e s val disabled centerp r =
     (let r1 = (if centerp then on_center r else r);
          (val1, r2) = apply_pipeline e (s_reltrans_mode s) val
                         [s_reltrans_disable_tx s, s_reltrans_disable_ty s,
                          s_reltrans_disable_tz s, s_reltrans_disable_src_yaw s,
                          s_reltrans_disable_src_pitch s, s_reltrans_disable_src_roll s]
                         (s_neck_enable s) (s_neck_z s) r1
      in (fold (\<lambda>k v. if disabled ! k then v[k := 0] else v) [0..<6] val1, r2))"

section \<open>One cycle\<close>

text \<open>
  \<^verbatim>\<open>pipeline::logic\<close>. Its two labels are functions: \<open>label_ok\<close> is the code from
  \<^verbatim>\<open>ok:\<close> to the end (it returns the pose handed to the protocol and the new state),
  and \<open>label_error\<close> is the block at \<^verbatim>\<open>error:\<close>, which falls through to \<^verbatim>\<open>ok:\<close>.
\<close>

definition label_ok :: "axis_opts list \<Rightarrow> pipeline \<Rightarrow> Pose \<Rightarrow> Pose \<Rightarrow> Pose \<times> pipeline" where
  "label_ok m p val raw =
     (let p1 = p\<lparr>p_b := bits_set (p_b p) f_center False\<rparr>;
          val1 = (if bits_get (p_b p1) f_zero
                  then fold (\<lambda>i v. v[i := 0]) [0..<6] val else val);
          val2 = apply_zero_pos m val1
      in (val2, p1\<lparr>output_pose := val2, raw_6dof := raw\<rparr>))"

definition label_error :: "axis_opts list \<Rightarrow> pipeline \<Rightarrow> Pose \<times> pipeline" where
  "label_error m p = label_ok m p (output_pose p) (raw_6dof p)"

text \<open>
  Lines 436-484, the computation of the new pose: \<open>None\<close> where a \<^verbatim>\<open>nan_check\<close> jumps
  to \<^verbatim>\<open>error\<close>, with the state as it is at the jump.
\<close>

definition compute ::
  "ext \<Rightarrow> settings \<Rightarrow> axis_opts list \<Rightarrow> bool \<Rightarrow> bool \<Rightarrow> pipeline \<Rightarrow> (Pose \<times> Pose) option \<times> pipeline" where
  "compute e s m center_ordered own_center_logic p =
     (case tracker_data e of
        None \<Rightarrow> (None, p)
      | Some newpose \<Rightarrow>
          (let (raw, val0, disabled) = get_selected_axis_values m newpose;
               val1 = clamp_value val0;
               (_, p1) = maybe_enable_center_on_tracking_started s newpose p;
               p2 = store_tracker_pose e val1 p1;
               p3 = maybe_set_center_pose val1 own_center_logic p2;
               val2 = apply_center e m p3 val1
           in case maybe_apply_filter e val2 of
                None \<Rightarrow> (None, p3)
              | Some tmp \<Rightarrow>
                  (let val3 = (if \<not> center_ordered then tmp else val2)
                   in case map_axes e m [3..<6] val3 of
                        None \<Rightarrow> (None, p3)
                      | Some val4 \<Rightarrow>
                          (let (val5, r) = apply_reltrans e s val4 disabled center_ordered (p_rel p3);
                               p4 = p3\<lparr>p_rel := r\<rparr>
                           in case map_axes e m [0..<3] val5 of
                                None \<Rightarrow> (None, p4)
                              | Some val6 \<Rightarrow> (Some (val6, raw), p4)))))"

definition hold_ordered :: "32 word \<Rightarrow> bool" where
  "hold_ordered w = (bits_get w f_enabled_p \<noteq> bits_get w f_enabled_h)"

definition logic :: "ext \<Rightarrow> settings \<Rightarrow> axis_opts list \<Rightarrow> pipeline \<Rightarrow> Pose \<times> pipeline" where
  "logic e s m p =
     (let center_ordered = (bits_get (p_b p) (f_center OR f_held_center) \<and> tracking_started p);
          own_center_logic = (center_ordered \<and> tracker_center e);
          hold = hold_ordered (p_b p);
          (res, p1) = compute e s m center_ordered own_center_logic p
      in case res of
           None \<Rightarrow> label_error m p1
         | Some (val, raw) \<Rightarrow> if \<not> hold then label_ok m p1 val raw else label_error m p1)"

section \<open>Inputs for the examples\<close>

text \<open>
  Concrete collaborators, settings and states on which the theorems below are
  instantiated. \<open>sample_ext R td dt pt\<close>: every Euler triple has the rotation matrix
  \<open>R\<close>, every matrix the Euler triple 0, the scale is 8, the tracker delivers \<open>td\<close>,
  the timers read \<open>dt\<close> and \<open>pt\<close>, there is no filter and every curve is the identity.
  \<open>sample_maps z\<close>: axis \<open>i\<close> reads source \<open>i\<close>, nothing is inverted, and the
  zero-offset of TX is \<open>z\<close>. \<open>quarter_turn\<close> is a rotation by a right angle about
  the second axis, the matrix the examples take for a yaw of 90 degrees with pitch and
  roll 0; \<open>eye\<close> is taken where yaw, pitch and roll are 0.
\<close>

definition sample_ext :: "rmat \<Rightarrow> Pose option \<Rightarrow> real \<Rightarrow> real \<Rightarrow> ext" where
  "sample_ext R td dt pt =
     \<lparr>euler_to_rmat = (\<lambda>_. R), rmat_to_euler = (\<lambda>_. [0, 0, 0]),
      scale_c = 8, scale_inv_c = 1 / 8, interp_elapsed = dt, phase_elapsed = pt,
      tracker_data = td, tracker_center = False, pFilter = None,
      spline_main = (\<lambda>i x. Some x), spline_alt = (\<lambda>i x. Some x)\<rparr>"

definition quarter_turn :: rmat where
  "quarter_turn = [[0, 0, - 1], [0, 1, 0], [1, 0, 0]]"

definition sample_maps :: "real \<Rightarrow> axis_opts list" where
  "sample_maps z =
     map (\<lambda>i. \<lparr>opts_src = int i, opts_invert = False,
                opts_zero = (if i = 0 then z else 0), opts_altp = False\<rparr>) [0..<6]"

definition sample_settings :: "reltrans_state \<Rightarrow> settings" where
  "sample_settings mode =
     \<lparr>s_center_at_startup = False, s_reltrans_mode = mode,
      s_reltrans_disable_tx = False, s_reltrans_disable_ty = False,
      s_reltrans_disable_tz = False, s_reltrans_disable_src_yaw = False,
      s_reltrans_disable_src_pitch = False, s_reltrans_disable_src_roll = False,
      s_neck_enable = False, s_neck_z = 0\<rparr>"

definition sample_reltrans :: "bool \<Rightarrow> bool \<Rightarrow> nat \<Rightarrow> reltrans" where
  "sample_reltrans z c n = \<lparr>interp_pos = [0, 0, 0], in_zone = z, cur = c, RC_stage = n\<rparr>"

definition sample_pipeline :: "Pose \<Rightarrow> 32 word \<Rightarrow> pipeline" where
  "sample_pipeline out w =
     \<lparr>p_rel = sample_reltrans False False 0,
      scaled_state = \<lparr>rotation = eye, inv_rot_center = eye, t_center = [0, 0, 0]\<rparr>,
      output_pose = out, raw_6dof = [0, 0, 0, 0, 0, 0],
      tracking_started = False, p_b = w\<rparr>"

definition all_enabled :: "bool list" where
  "all_enabled = [False, False, False, False, False, False]"

section \<open>Properties of the rotation clamp\<close>

lemma upt_3_6: "[3..<6] = [3, 4, 5::nat]"
  by (simp add: upt_rec)

lemma clamp_axis_length: "length (clamp_axis i val) = length val"
  by (simp add: clamp_axis_def Let_def)

lemma clamp_axis_same:
  "i < length val \<Longrightarrow> clamp_axis i val ! i = clamp (fmod (val ! i) 360) (- 180) 180"
  by (simp add: clamp_axis_def Let_def)

lemma clamp_axis_other:
  "j \<noteq> i \<Longrightarrow> clamp_axis i val ! j = val ! j"
  by (simp add: clamp_axis_def Let_def)

lemma clamp_value_length: "length (clamp_value val) = length val"
  by (simp add: clamp_value_def upt_3_6 clamp_axis_length)

lemma clamp_value_rot:
  assumes "length val = 6" and "i \<in> {3, 4, 5}"
  shows "clamp_value val ! i = clamp (fmod (val ! i) 360) (- 180) 180"
  using assms
  by (auto simp add: clamp_value_def upt_3_6 clamp_axis_length clamp_axis_same clamp_axis_other)

lemma clamp_value_trans:
  assumes "i < 3"
  shows "clamp_value val ! i = val ! i"
  using assms
  by (simp add: clamp_value_def upt_3_6 clamp_axis_other)

lemma clamp_bounds: "lo \<le> hi \<Longrightarrow> lo \<le> clamp x lo hi \<and> clamp x lo hi \<le> hi"
  by (simp add: clamp_def)

lemma fmod_small: "\<bar>x\<bar> < y \<Longrightarrow> fmod x y = x"
proof -
  assume a: "\<bar>x\<bar> < y"
  then have y: "0 < y" by linarith
  show ?thesis
  proof (cases "0 \<le> x")
    case True
    with a y have "0 \<le> x / y" "x / y < 1" by simp_all
    then have "\<lfloor>x / y\<rfloor> = 0" by linarith
    with True y show ?thesis by (simp add: fmod_def trunc_def)
  next
    case False
    with a y have "x / y \<le> 0" "- 1 < x / y" by (simp_all add: field_simps)
    then have "\<lceil>x / y\<rceil> = 0" by linarith
    moreover have "\<not> 0 \<le> x / y" using False y by (simp add: field_simps)
    ultimately show ?thesis by (simp add: fmod_def trunc_def)
  qed
qed

lemma fmod_period_nonneg:
  assumes "0 \<le> x" "0 \<le> x + 360 * of_int k"
  shows "fmod (x + 360 * of_int k) 360 = fmod x 360"
proof -
  have "(x + 360 * of_int k) / 360 = x / 360 + of_int k" by (simp add: field_simps)
  then have "\<lfloor>(x + 360 * of_int k) / 360\<rfloor> = \<lfloor>x / 360\<rfloor> + k"
    by (simp only: floor_add_int)
  with assms show ?thesis by (simp add: fmod_def trunc_def algebra_simps)
qed

lemma fmod_period_nonpos:
  assumes "x \<le> 0" "x + 360 * of_int k \<le> 0"
  shows "fmod (x + 360 * of_int k) 360 = fmod x 360"
proof -
  have "(x + 360 * of_int k) / 360 = x / 360 + of_int k" by (simp add: field_simps)
  then have c: "\<lceil>(x + 360 * of_int k) / 360\<rceil> = \<lceil>x / 360\<rceil> + k"
    by (simp only: ceiling_add_of_int)
  show ?thesis
  proof (cases "x = 0")
    case True
    then have "k \<le> 0" using assms by simp
    show ?thesis
    proof (cases "k = 0")
      case True then show ?thesis by simp
    next
      case False
      with \<open>k \<le> 0\<close> have "k < 0" by simp
      then have "(of_int k :: real) < 0" by simp
      with \<open>x = 0\<close> show ?thesis by (simp add: fmod_def trunc_def)
    qed
  next
    case False
    with assms have x: "x < 0" by simp
    show ?thesis
    proof (cases "x + 360 * of_int k = 0")
      case True
      then have xk: "x = - 360 * of_int k" by simp
      have "x / 360 = - of_int k" unfolding xk by simp
      then have "\<lceil>x / 360\<rceil> = - k" by (metis ceiling_of_int of_int_minus)
      with x True xk show ?thesis by (simp add: fmod_def trunc_def)
    next
      case False
      with assms have "x + 360 * of_int k < 0" by simp
      with x c show ?thesis by (simp add: fmod_def trunc_def algebra_simps)
    qed
  qed
qed

lemmas clamp_eval =
  clamp_value_def upt_3_6 clamp_axis_def fmod_small copysign_def clamp_def Let_def

text \<open>
  C1. The spec's examples for the rotation clamp, 190 to -170 and -185 to 175, evaluated
  on the code: the folded value is computed and then overwritten by the clamp of the
  unfolded \<open>x\<close>, so 190 gives 180 and -185 gives -180.
\<close>

theorem clamp_value_examples_on_code:
  "clamp_value [0, 0, 0, 190, 0, 0] ! 3 = 180 \<and> clamp_value [0, 0, 0, - 185, 0, 0] ! 3 = - 180"
  by (simp add: clamp_eval)

text \<open>
  C4. For every pose, each rotation slot (indices 3 to 5) of the result of the rotation
  clamp lies in [-180, 180], and the translation slots are returned as they came.
\<close>

theorem clamp_value_rotation_range:
  assumes "length val = 6"
  shows "(\<forall>i\<in>{3, 4, 5}. - 180 \<le> clamp_value val ! i \<and> clamp_value val ! i \<le> 180)
       \<and> (\<forall>i<3. clamp_value val ! i = val ! i)"
proof -
  have "- 180 \<le> clamp_value val ! i \<and> clamp_value val ! i \<le> 180" if "i \<in> {3, 4, 5}" for i
    using clamp_value_rot [OF assms that] clamp_bounds [of "- 180" 180 "fmod (val ! i) 360"]
    by simp
  then show ?thesis by (simp add: clamp_value_trans)
qed

theorem clamp_value_rotation_range_witness:
  "length [1, 2, 3, 190, - 185, 720 :: real] = 6
   \<and> - 180 \<le> clamp_value [1, 2, 3, 190, - 185, 720] ! 3
   \<and> clamp_value [1, 2, 3, 190, - 185, 720] ! 3 \<le> 180
   \<and> - 180 \<le> clamp_value [1, 2, 3, 190, - 185, 720] ! 4
   \<and> clamp_value [1, 2, 3, 190, - 185, 720] ! 4 \<le> 180
   \<and> - 180 \<le> clamp_value [1, 2, 3, 190, - 185, 720] ! 5
   \<and> clamp_value [1, 2, 3, 190, - 185, 720] ! 5 \<le> 180
   \<and> clamp_value [1, 2, 3, 190, - 185, 720] ! 0 = 1
   \<and> clamp_value [1, 2, 3, 190, - 185, 720] ! 1 = 2
   \<and> clamp_value [1, 2, 3, 190, - 185, 720] ! 2 = 3"
proof -
  have h: "length [1, 2, 3, 190, - 185, 720 :: real] = 6" by simp
  note t = clamp_value_rotation_range [OF h]
  note r = bspec [OF conjunct1 [OF t]]
  note s = spec [OF conjunct2 [OF t]]
  have "(3::nat) \<in> {3, 4, 5}" "(4::nat) \<in> {3, 4, 5}" "(5::nat) \<in> {3, 4, 5}" by simp_all
  then show ?thesis
    using h r [of 3] r [of 4] r [of 5] s [of 0] s [of 1] s [of 2] by simp
qed

text \<open>
  C5. The claim: the rotation clamp is 360-periodic, \<open>clampRotation x = clampRotation
  (x + 360 * k)\<close> for every integer \<open>k\<close>. It fails at the two ends of the range, which
  are both fixed points: 180 stays 180 and 180 - 360 = -180 stays -180.
\<close>

theorem clamp_value_not_periodic:
  "clamp_value [0, 0, 0, 180, 0, 0] ! 3
     \<noteq> clamp_value [0, 0, 0, 180 + 360 * of_int (- 1), 0, 0] ! 3"
  by (simp add: clamp_eval)

text \<open>
  C5, amended. The rotation clamp gives the same result for \<open>x\<close> and \<open>x + 360 * k\<close>
  whenever the two angles have the same sign (both at least 0, or both at most 0).
\<close>

theorem clamp_value_periodic_same_sign:
  assumes "length val = 6" and "i \<in> {3, 4, 5}"
    and "(0 \<le> x \<and> 0 \<le> x + 360 * of_int k) \<or> (x \<le> 0 \<and> x + 360 * of_int k \<le> 0)"
  shows "clamp_value (val[i := x + 360 * of_int k]) ! i = clamp_value (val[i := x]) ! i"
proof -
  have f: "fmod (x + 360 * of_int k) 360 = fmod x 360"
    using assms(3) fmod_period_nonneg fmod_period_nonpos by blast
  have i: "i < length val" using assms by auto
  show ?thesis
    using assms(1,2) i by (simp add: clamp_value_rot f)
qed

theorem clamp_value_periodic_same_sign_witness:
  "length [0, 0, 0, 0, 0, 0 :: real] = 6
   \<and> (0 \<le> (190::real) \<and> 0 \<le> (190::real) + 360 * of_int 2)
   \<and> clamp_value ([0, 0, 0, 0, 0, 0][3 := 190 + 360 * of_int 2]) ! 3
     = clamp_value ([0, 0, 0, 0, 0, 0][3 := 190]) ! 3
   \<and> clamp_value ([0, 0, 0, 0, 0, 0][3 := 190]) ! 3 = 180"
proof -
  have h: "length [0, 0, 0, 0, 0, 0 :: real] = 6" and i: "(3::nat) \<in> {3, 4, 5}"
    and s: "(0 \<le> (190::real) \<and> 0 \<le> (190::real) + 360 * of_int 2)" by simp_all
  have v: "clamp_value ([0, 0, 0, 0, 0, 0][3 := 190]) ! 3 = 180" by (simp add: clamp_eval)
  from clamp_value_periodic_same_sign [OF h i disjI1 [OF s]] h s v show ?thesis by simp
qed

section \<open>Properties of the compensator\<close>

lemma upt_0_3: "[0..<3] = [0, 1, 2::nat]"
  by (simp add: upt_rec)

lemma upt_0_6: "[0..<6] = [0, 1, 2, 3, 4, 5::nat]"
  by (simp add: upt_rec)

lemmas axis_defs = TX_def TY_def TZ_def Yaw_def Pitch_def Roll_def

lemma interpolate_in_zone: "in_zone (snd (interpolate e rel r)) = in_zone r"
  by (simp add: interpolate_def Let_def)

lemma arm_in_zone: "in_zone (arm z r) = z"
  by (simp add: arm_def Let_def)

lemma apply_pipeline_in_zone:
  "in_zone (snd (apply_pipeline e state val disable neck_en nz r)) =
     (if state = reltrans_disabled then False else zone_test state val)"
  by (simp add: apply_pipeline_def Let_def split_beta interpolate_in_zone arm_in_zone)

text \<open>
  C6. In ZoneTriggered mode (\<open>reltrans_non_center\<close>) the zone is active iff
  \<open>|yaw| > 35\<close> when \<open>pitch < 20\<close>, and iff \<open>|yaw| > 65\<close> otherwise; in AlwaysOn mode
  it is always active. This is the value the step stores in \<open>in_zone\<close>. The four
  examples: (pitch 10, yaw 40) active, (10, 30) inactive, (25, 70) active, (25, 60)
  inactive.
\<close>

theorem zone_predicate:
  "zone_test reltrans_non_center val
     = (if val ! Pitch < 20 then \<bar>val ! Yaw\<bar> > 35 else \<bar>val ! Yaw\<bar> > 65)
   \<and> zone_test reltrans_enabled val
   \<and> in_zone (snd (apply_pipeline e reltrans_non_center val disable neck_en nz r))
     = (if val ! Pitch < 20 then \<bar>val ! Yaw\<bar> > 35 else \<bar>val ! Yaw\<bar> > 65)
   \<and> in_zone (snd (apply_pipeline e reltrans_enabled val disable neck_en nz r))
   \<and> zone_test reltrans_non_center [0, 0, 0, 40, 10, 0]
   \<and> \<not> zone_test reltrans_non_center [0, 0, 0, 30, 10, 0]
   \<and> zone_test reltrans_non_center [0, 0, 0, 70, 25, 0]
   \<and> \<not> zone_test reltrans_non_center [0, 0, 0, 60, 25, 0]"
  by (simp add: apply_pipeline_in_zone zone_test_def Let_def axis_defs)

text \<open>
  C8. A center command resets the compensator before compensation runs: after
  \<open>on_center\<close> the zone flag and the transition flag are false and the interpolated
  position is (0, 0, 0), and \<open>apply_reltrans\<close> with the center flag set is
  \<open>apply_reltrans\<close> without it on the reset state.
\<close>

theorem on_center_resets:
  "in_zone (on_center r) = False \<and> cur (on_center r) = False
   \<and> interp_pos (on_center r) = [0, 0, 0]
   \<and> apply_reltrans e s val disabled True r = apply_reltrans e s val disabled False (on_center r)"
  by (simp add: on_center_def apply_reltrans_def)

lemma interpolate_stage:
  "RC_stage (snd (interpolate e rel r)) =
     (if cur r \<and> RC_stage r + 1 < 5 \<and> phase_elapsed e > RC_time_deltas ! RC_stage r
      then RC_stage r + 1 else RC_stage r)"
  by (simp add: interpolate_def Let_def RC_stages_def)

lemma apply_pipeline_stage:
  "RC_stage (snd (apply_pipeline e state val disable neck_en nz r)) =
     (if state = reltrans_disabled then RC_stage r
      else let r1 = arm (zone_test state val) r
           in if cur r1 \<and> RC_stage r1 + 1 < 5 \<and> phase_elapsed e > RC_time_deltas ! RC_stage r1
              then RC_stage r1 + 1 else RC_stage r1)"
  by (simp add: apply_pipeline_def Let_def split_beta interpolate_stage)

text \<open>
  C10. \<open>on_center\<close> leaves the RC stage as it is. A compensator step lowers the stage
  only when it arms a new transition (the compensator is not disabled, no transition is
  running and the zone membership changes); such a step restarts the schedule at stage
  0, from which the same step may advance once, to stage 1, when the phase timer reads
  more than the first threshold.
\<close>

theorem on_center_keeps_RC_stage:
  "RC_stage (on_center r) = RC_stage r
   \<and> (RC_stage (snd (apply_pipeline e state val disable neck_en nz r)) < RC_stage r
        \<longrightarrow> state \<noteq> reltrans_disabled \<and> \<not> cur r \<and> in_zone r \<noteq> zone_test state val)
   \<and> (state \<noteq> reltrans_disabled \<and> \<not> cur r \<and> in_zone r \<noteq> zone_test state val
        \<longrightarrow> RC_stage (snd (apply_pipeline e state val disable neck_en nz r))
            = (if phase_elapsed e > 1 then 1 else 0))"
  by (auto simp add: on_center_def apply_pipeline_stage arm_def Let_def RC_time_deltas_def)

lemma list3: "length xs = 3 \<Longrightarrow> [xs ! 0, xs ! 1, xs ! 2] = xs"
  by (cases xs; simp; cases "tl xs"; simp; cases "tl (tl xs)"; simp)

lemma reltrans_rotate_length: "length (reltrans_rotate R inp disable) = 3"
  by (simp add: reltrans_rotate_def Let_def)

lemma apply_neck_length: "length (apply_neck R nz dz) = 3"
  by (simp add: apply_neck_def Let_def reltrans_rotate_length)

lemma add_neck_fold:
  assumes "length v = 3" "length n = 3"
  shows "fold (\<lambda>k v. v[k := v ! k + n ! k]) [0..<3] v = vadd v n"
proof -
  obtain a b c where v: "v = [a, b, c]"
    using assms(1) by (metis list3)
  obtain x y z where n: "n = [x, y, z]"
    using assms(2) by (metis list3)
  show ?thesis by (simp add: v n upt_0_3 vadd_def)
qed

lemma zone_block_length:
  "length rel = 3 \<Longrightarrow> length (zone_block e state val disable neck_en nz r rel) = 3"
  by (simp add: zone_block_def Let_def add_neck_fold reltrans_rotate_length apply_neck_length vadd_def)

lemma vadd_length: "length (vadd a c) = min (length a) (length c)"
  by (simp add: vadd_def)

lemma vscale_length: "length (vscale a c) = length a"
  by (simp add: vscale_def)

lemma RC_stages_length: "length RC_stages = 5"
  by (simp add: RC_stages_def)

lemma RC_stages_pos: "n < 5 \<Longrightarrow> 0 < RC_stages ! n"
proof -
  assume "n < 5"
  then have "n = 0 \<or> n = 1 \<or> n = 2 \<or> n = 3 \<or> n = 4" by arith
  then show ?thesis by (auto simp add: RC_stages_def)
qed

lemma apply_pipeline_enabled:
  assumes "state \<noteq> reltrans_disabled" "length val = 6" "length (interp_pos r) = 3"
  shows "snd (apply_pipeline e state val disable neck_en nz r)
           = snd (interpolate e (zone_block e state val disable neck_en nz
                    (arm (zone_test state val) r) (take 3 val)) (arm (zone_test state val) r))"
    and "take 3 (fst (apply_pipeline e state val disable neck_en nz r))
           = fst (interpolate e (zone_block e state val disable neck_en nz
                    (arm (zone_test state val) r) (take 3 val)) (arm (zone_test state val) r))"
proof -
  let ?r1 = "arm (zone_test state val) r"
  let ?t = "zone_block e state val disable neck_en nz ?r1 (take 3 val)"
  show "snd (apply_pipeline e state val disable neck_en nz r) = snd (interpolate e ?t ?r1)"
    using assms(1) by (simp add: apply_pipeline_def Let_def split_beta)
  have lt: "length ?t = 3" using assms(2) by (simp add: zone_block_length)
  have li: "length (interp_pos ?r1) = 3" using assms(3) by (simp add: arm_def Let_def)
  have "length (fst (interpolate e ?t ?r1)) = 3"
    using lt li by (simp add: interpolate_def Let_def vadd_length vscale_length)
  then have "[fst (interpolate e ?t ?r1) ! 0, fst (interpolate e ?t ?r1) ! 1,
              fst (interpolate e ?t ?r1) ! 2] = fst (interpolate e ?t ?r1)"
    by (rule list3)
  then show "take 3 (fst (apply_pipeline e state val disable neck_en nz r))
               = fst (interpolate e ?t ?r1)"
    using assms(1) by (simp add: apply_pipeline_def Let_def split_beta axis_defs)
qed

text \<open>
  The hypotheses on the compensator state in the theorems below are invariants of its
  two operations: the stage stays inside the table and the accumulator keeps its three
  components.
\<close>

lemma RC_stage_invariant:
  "RC_stage r < 5 \<Longrightarrow>
   RC_stage (on_center r) < 5
   \<and> RC_stage (snd (apply_pipeline e state val disable neck_en nz r)) < 5"
  by (auto simp add: on_center_def apply_pipeline_stage arm_def Let_def)

lemma interp_pos_invariant:
  assumes "length val = 6" and "length (interp_pos r) = 3"
  shows "length (interp_pos (on_center r)) = 3
   \<and> length (interp_pos (snd (apply_pipeline e state val disable neck_en nz r))) = 3"
proof (cases "state = reltrans_disabled")
  case True
  then show ?thesis
    using assms(2) by (simp add: on_center_def apply_pipeline_def Let_def)
next
  case False
  let ?r1 = "arm (zone_test state val) r"
  let ?t = "zone_block e state val disable neck_en nz ?r1 (take 3 val)"
  have lt: "length ?t = 3" using assms(1) by (simp add: zone_block_length)
  have li: "length (interp_pos ?r1) = 3" using assms(2) by (simp add: arm_def Let_def)
  have "length (interp_pos (snd (interpolate e ?t ?r1))) = 3"
    using lt li by (simp add: interpolate_def Let_def vadd_length vscale_length)
  then show ?thesis
    using apply_pipeline_enabled(1) [OF False assms] by (simp add: on_center_def)
qed

text \<open>
  C7. For a compensator that is not disabled, with \<open>r1\<close> the state after the arming
  step, \<open>target\<close> the translation after the zone block, \<open>dt\<close> the reading of the
  cycle timer and \<open>pt\<close> that of the phase timer. The tables are
  \<open>RC = {2, 1, 0.5, 0.1, 0.05}\<close> and \<open>{1, 0.25, 0.25, 2}\<close>. During a transition
  (\<open>cur r1\<close>) the stage advances by one when it is not the last and \<open>pt\<close> exceeds
  its threshold, and stays below 5; \<open>alpha = dt / (dt + RC)\<close> for the RC of that stage,
  and lies in [0, 1); the accumulator becomes \<open>interp * (1 - alpha) + target * alpha\<close>
  and is the translation returned; the transition flag stays set exactly when the L1
  distance between target and accumulator is not below 0.01. Outside a transition the
  accumulator is set to the target, which is returned, and the stage is not changed.
\<close>

theorem staged_interpolation:
  fixes e :: ext and state :: reltrans_state and val :: Pose and disable :: "bool list"
    and neck_en :: bool and nz :: int and r :: reltrans
  assumes "state \<noteq> reltrans_disabled" and "RC_stage r < 5" and "0 \<le> interp_elapsed e"
    and "length val = 6" and "length (interp_pos r) = 3"
  defines "r1 \<equiv> arm (zone_test state val) r"
  defines "target \<equiv> zone_block e state val disable neck_en nz r1 (take 3 val)"
  defines "stage \<equiv> (if RC_stage r1 + 1 < 5 \<and> phase_elapsed e > RC_time_deltas ! RC_stage r1
                      then RC_stage r1 + 1 else RC_stage r1)"
  defines "alpha \<equiv> interp_elapsed e / (interp_elapsed e + RC_stages ! stage)"
  defines "out \<equiv> apply_pipeline e state val disable neck_en nz r"
  defines "d \<equiv> vsub target (interp_pos (snd out))"
  shows "RC_stages = [2, 1, 1 / 2, 1 / 10, 1 / 20] \<and> RC_time_deltas = [1, 1 / 4, 1 / 4, 2]
    \<and> (cur r1 \<longrightarrow>
          stage < 5 \<and> RC_stage (snd out) = stage \<and> 0 \<le> alpha \<and> alpha < 1
          \<and> interp_pos (snd out) = vadd (vscale (interp_pos r) (1 - alpha)) (vscale target alpha)
          \<and> take 3 (fst out) = interp_pos (snd out)
          \<and> cur (snd out) = (\<not> \<bar>d ! 0\<bar> + \<bar>d ! 1\<bar> + \<bar>d ! 2\<bar> < 1 / 100))
    \<and> (\<not> cur r1 \<longrightarrow>
          interp_pos (snd out) = target \<and> take 3 (fst out) = target
          \<and> \<not> cur (snd out) \<and> RC_stage (snd out) = RC_stage r)"
proof -
  have s5: "RC_stage r1 < 5" using assms(2) by (simp add: r1_def arm_def Let_def)
  then have st: "stage < 5" by (simp add: stage_def)
  have ip: "interp_pos r1 = interp_pos r" by (simp add: r1_def arm_def Let_def)
  have rs: "\<not> cur r1 \<Longrightarrow> RC_stage r1 = RC_stage r"
    by (auto simp add: r1_def arm_def Let_def split: if_splits)
  note ap = apply_pipeline_enabled [OF assms(1) assms(4) assms(5), of e disable neck_en nz,
      folded r1_def, folded target_def, folded out_def]
  have pos: "0 < RC_stages ! stage" using st by (rule RC_stages_pos)
  have al: "0 \<le> alpha \<and> alpha < 1" using pos assms(3) by (simp add: alpha_def)
  have c: "cur r1 \<Longrightarrow> RC_stage (snd out) = stage
      \<and> interp_pos (snd out) = vadd (vscale (interp_pos r) (1 - alpha)) (vscale target alpha)
      \<and> take 3 (fst out) = interp_pos (snd out)
      \<and> cur (snd out) = (\<not> \<bar>d ! 0\<bar> + \<bar>d ! 1\<bar> + \<bar>d ! 2\<bar> < 1 / 100)"
    unfolding d_def ap
    by (simp add: interpolate_def Let_def RC_stages_length ip stage_def alpha_def)
  have n: "\<not> cur r1 \<Longrightarrow> interp_pos (snd out) = target \<and> take 3 (fst out) = target
      \<and> \<not> cur (snd out) \<and> RC_stage (snd out) = RC_stage r"
    unfolding ap using rs by (simp add: interpolate_def Let_def)
  show ?thesis using c n st al by (simp add: RC_stages_def RC_time_deltas_def)
qed

lemmas sample_defs = sample_ext_def quarter_turn_def sample_maps_def sample_settings_def
  sample_reltrans_def sample_pipeline_def all_enabled_def

lemmas vec_defs = vadd_def vsub_def vscale_def dot_def mat_vec_def mat_mul_def

theorem staged_interpolation_witness:
  "reltrans_enabled \<noteq> reltrans_disabled \<and> RC_stage (sample_reltrans False False 3) < 5
   \<and> 0 \<le> interp_elapsed (sample_ext eye None 2 0)
   \<and> length [4, 0, 0, 0, 0, 0 :: real] = 6
   \<and> length (interp_pos (sample_reltrans False False 3)) = 3
   \<and> cur (arm (zone_test reltrans_enabled [4, 0, 0, 0, 0, 0]) (sample_reltrans False False 3))
   \<and> RC_stage (snd (apply_pipeline (sample_ext eye None 2 0) reltrans_enabled [4, 0, 0, 0, 0, 0]
         all_enabled False 0 (sample_reltrans False False 3))) = 0
   \<and> interp_pos (snd (apply_pipeline (sample_ext eye None 2 0) reltrans_enabled [4, 0, 0, 0, 0, 0]
         all_enabled False 0 (sample_reltrans False False 3))) = [2, 0, 0]
   \<and> take 3 (fst (apply_pipeline (sample_ext eye None 2 0) reltrans_enabled [4, 0, 0, 0, 0, 0]
         all_enabled False 0 (sample_reltrans False False 3))) = [2, 0, 0]
   \<and> cur (snd (apply_pipeline (sample_ext eye None 2 0) reltrans_enabled [4, 0, 0, 0, 0, 0]
         all_enabled False 0 (sample_reltrans False False 3)))"
proof -
  have h1: "reltrans_enabled \<noteq> reltrans_disabled" by simp
  have h2: "RC_stage (sample_reltrans False False 3) < 5" by (simp add: sample_defs)
  have h3: "0 \<le> interp_elapsed (sample_ext eye None 2 0)" by (simp add: sample_defs)
  have h4: "length [4, 0, 0, 0, 0, 0 :: real] = 6" by simp
  have h5: "length (interp_pos (sample_reltrans False False 3)) = 3" by (simp add: sample_defs)
  have a: "arm (zone_test reltrans_enabled [4, 0, 0, 0, 0, 0]) (sample_reltrans False False 3)
             = sample_reltrans True True 0"
    by (simp add: arm_def zone_test_def sample_defs Let_def)
  have t: "zone_block (sample_ext eye None 2 0) reltrans_enabled [4, 0, 0, 0, 0, 0] all_enabled
             False 0 (sample_reltrans True True 0) (take 3 [4, 0, 0, 0, 0, 0]) = [4, 0, 0]"
    by (simp add: zone_block_def reltrans_rotate_def sample_defs vec_defs eye_def axis_defs Let_def)
  have c: "cur (sample_reltrans True True 0)" and i: "interp_pos (sample_reltrans False False 3) = [0, 0, 0]"
    and s: "RC_stage (sample_reltrans True True 0) = 0"
    and p: "phase_elapsed (sample_ext eye None 2 0) = 0" "interp_elapsed (sample_ext eye None 2 0) = 2"
    by (simp_all add: sample_defs)
  from staged_interpolation [OF h1 h2 h3 h4 h5, of all_enabled False 0]
  show ?thesis
    unfolding a t
    by (simp add: c i s p h2 h5 RC_stages_def RC_time_deltas_def vec_defs)
qed

theorem on_center_keeps_RC_stage_witness:
  "RC_stage (on_center (sample_reltrans True False 3)) = 3
   \<and> RC_stage (snd (apply_pipeline (sample_ext eye None 0 0) reltrans_non_center
        [0, 0, 0, 0, 0, 0] all_enabled False 0 (sample_reltrans True False 3))) = 0
   \<and> RC_stage (snd (apply_pipeline (sample_ext eye None 0 0) reltrans_non_center
        [0, 0, 0, 0, 0, 0] all_enabled False 0 (sample_reltrans True False 3)))
       < RC_stage (sample_reltrans True False 3)
   \<and> \<not> cur (sample_reltrans True False 3)
   \<and> in_zone (sample_reltrans True False 3) \<noteq> zone_test reltrans_non_center [0, 0, 0, 0, 0, 0]"
  using on_center_keeps_RC_stage [of "sample_reltrans True False 3" "sample_ext eye None 0 0"
      reltrans_non_center "[0, 0, 0, 0, 0, 0]" all_enabled False 0]
  by (simp add: zone_test_def axis_defs sample_reltrans_def sample_ext_def)

lemma apply_pipeline_disabled:
  "length val = 6 \<Longrightarrow> fst (apply_pipeline e reltrans_disabled val disable neck_en nz r) = val"
proof -
  assume "length val = 6"
  then obtain a b c d f g where "val = [a, b, c, d, f, g]"
    by (cases val; simp; cases "tl val"; simp; cases "tl (tl val)"; simp;
        cases "tl (tl (tl val))"; simp; cases "tl (tl (tl (tl val)))"; simp;
        cases "tl (tl (tl (tl (tl val))))"; simp)
  then show ?thesis by (simp add: apply_pipeline_def Let_def axis_defs)
qed

text \<open>
  C9, amended. The neck model runs exactly when the neck is enabled and the mode is
  AlwaysOn (\<open>reltrans_enabled\<close>, in which the zone is always active): then the
  translation handed to the filter stage is the rotated translation plus the neck
  offset; in every other case of an enabled compensator it is the rotated translation
  inside the zone and the incoming one outside, and a disabled compensator returns the
  pose as it came. The neck offset is the pure-Z vector \<open>(0, 0, - neck_z)\<close> rotated
  through the matrix \<open>R\<close> that rotates the translation, with that Z subtracted from its
  Z component, and with its Z component 0 instead when the TZ axis is disabled.
\<close>

theorem neck_model_in_always_on:
  fixes e :: ext and state :: reltrans_state and val :: Pose and disable :: "bool list"
    and neck_en :: bool and nz :: int and r :: reltrans
  assumes "length val = 6" and "length (interp_pos r) = 3"
  defines "r1 \<equiv> arm (zone_test state val) r"
  defines "R \<equiv> euler_to_rmat e
                   [val ! Yaw * d2r * of_bool (\<not> disable ! Yaw),
                    val ! Pitch * d2r * of_bool (\<not> disable ! Pitch),
                    val ! Roll * d2r * of_bool (\<not> disable ! Roll)]"
  defines "rot \<equiv> reltrans_rotate R (take 3 val) (take 3 disable)"
  defines "target \<equiv> zone_block e state val disable neck_en nz r1 (take 3 val)"
  defines "pure_z \<equiv> reltrans_rotate R [0, 0, of_int (- nz)] [False, False, False]"
  shows "(state \<noteq> reltrans_disabled \<longrightarrow>
            take 3 (fst (apply_pipeline e state val disable neck_en nz r))
              = fst (interpolate e target r1)
          \<and> target =
              (if neck_en \<and> state = reltrans_enabled
               then vadd rot (apply_neck R (- nz) (disable ! TZ))
               else if zone_test state val then rot else take 3 val))
       \<and> (state = reltrans_disabled \<longrightarrow>
            fst (apply_pipeline e state val disable neck_en nz r) = val)
       \<and> apply_neck R (- nz) (disable ! TZ) =
            [pure_z ! TX, pure_z ! TY,
             if disable ! TZ then 0 else pure_z ! TZ - of_int (- nz)]"
proof -
  have z: "in_zone r1 = zone_test state val" by (simp add: r1_def arm_in_zone)
  have e: "zone_test reltrans_enabled val" by (simp add: zone_test_def)
  have l: "length rot = 3" by (simp add: rot_def reltrans_rotate_length)
  have t: "state \<noteq> reltrans_disabled \<Longrightarrow> target =
              (if neck_en \<and> state = reltrans_enabled
               then vadd rot (apply_neck R (- nz) (disable ! TZ))
               else if zone_test state val then rot else take 3 val)"
    using e l
    by (cases state)
       (simp_all add: target_def zone_block_def z Let_def R_def [symmetric] rot_def [symmetric]
          add_neck_fold apply_neck_length)
  have n: "apply_neck R (- nz) (disable ! TZ) =
            [pure_z ! TX, pure_z ! TY,
             if disable ! TZ then 0 else pure_z ! TZ - of_int (- nz)]"
    by (simp add: apply_neck_def Let_def pure_z_def reltrans_rotate_def axis_defs)
  show ?thesis
    using t n apply_pipeline_enabled(2) [OF _ assms(1) assms(2), of state e disable neck_en nz]
      apply_pipeline_disabled [OF assms(1), of e disable neck_en nz r]
    by (simp add: target_def r1_def)
qed

lemmas reltrans_eval = apply_pipeline_def zone_test_def arm_def zone_block_def interpolate_def
  reltrans_rotate_def apply_neck_def vec_defs sample_defs axis_defs Let_def upt_0_3

text \<open>
  C9. The claim: the neck model runs exactly when the neck is enabled and the state is
  not the "always-but-not-zoned" combination, and then adds the neck offset to the
  translation. With the neck enabled (\<open>neck_z = 10\<close>) in ZoneTriggered mode the
  translation (1, 2, 3) comes out as the rotated (1, -3, 2) inside the zone (yaw 90,
  pitch 0), not as (1, 7, 12), which is the rotated translation plus the neck offset;
  outside the zone (yaw 30, pitch 10) it comes out as (1, 2, 3).
\<close>

theorem neck_not_in_zone_triggered:
  "take 3 (fst (apply_pipeline (sample_ext quarter_turn None 0 0) reltrans_non_center
      [1, 2, 3, 90, 0, 0] all_enabled True 10 (sample_reltrans True False 0))) = [1, - 3, 2]
   \<and> vadd (reltrans_rotate quarter_turn [1, 2, 3] (take 3 all_enabled))
        (apply_neck quarter_turn (- 10) (all_enabled ! TZ)) = [1, 7, 12]
   \<and> take 3 (fst (apply_pipeline (sample_ext quarter_turn None 0 0) reltrans_non_center
      [1, 2, 3, 30, 10, 0] all_enabled True 10 (sample_reltrans False False 0))) = [1, 2, 3]"
  by (simp add: reltrans_eval)

theorem neck_model_in_always_on_witness:
  "length [1, 2, 3, 90, 0, 0 :: real] = 6
   \<and> length (interp_pos (sample_reltrans True False 0)) = 3
   \<and> take 3 (fst (apply_pipeline (sample_ext quarter_turn None 0 0) reltrans_enabled
        [1, 2, 3, 90, 0, 0] all_enabled True 10 (sample_reltrans True False 0))) = [1, 7, 12]
   \<and> apply_neck quarter_turn (- 10) False = [0, 10, 10]"
proof -
  have h1: "length [1, 2, 3, 90, 0, 0 :: real] = 6" by simp
  have h2: "length (interp_pos (sample_reltrans True False 0)) = 3" by (simp add: sample_defs)
  have a: "arm (zone_test reltrans_enabled [1, 2, 3, 90, 0, 0]) (sample_reltrans True False 0)
             = sample_reltrans True False 0"
    by (simp add: arm_def zone_test_def sample_defs Let_def)
  have R: "euler_to_rmat (sample_ext quarter_turn None 0 0) v = quarter_turn" for v
    by (simp add: sample_ext_def)
  have n: "apply_neck quarter_turn (- 10) False = [0, 10, 10]"
    by (simp add: apply_neck_def reltrans_rotate_def vec_defs quarter_turn_def axis_defs Let_def)
  have v: "vadd (reltrans_rotate quarter_turn [1, 2, 3] (take 3 all_enabled))
             [0, 10, 10] = [1, 7, 12]"
    by (simp add: reltrans_rotate_def vec_defs quarter_turn_def all_enabled_def axis_defs Let_def)
  have i: "fst (interpolate (sample_ext quarter_turn None 0 0) [1, 7, 12]
             (sample_reltrans True False 0)) = [1, 7, 12]"
    by (simp add: interpolate_def sample_reltrans_def)
  have d: "all_enabled ! TZ = False" by (simp add: all_enabled_def TZ_def)
  from neck_model_in_always_on [OF h1 h2, of reltrans_enabled "sample_ext quarter_turn None 0 0"
      all_enabled True 10]
  show ?thesis
    unfolding a R d by (simp add: n v i h2)
qed

section \<open>Properties of the cycle\<close>

lemma bits_zero_after_center: "bits_get (bits_set w f_center v) f_zero = bits_get w f_zero"
proof -
  have a: "NOT (1::32 word) AND 16 = 16" by simp
  have b: "(1::32 word) AND 16 = 0" by simp
  have "((w AND NOT 1) OR c) AND 16 = w AND (16::32 word)" if "c AND 16 = 0" for c :: "32 word"
  proof -
    have "((w AND NOT 1) OR c) AND 16 = ((w AND NOT 1) AND 16) OR (c AND 16)"
      by (rule bit.conj_disj_distrib2)
    also have "(w AND NOT 1) AND 16 = w AND (NOT 1 AND 16)" by (rule and.assoc)
    finally show ?thesis by (simp add: a that)
  qed
  from this [of "1 * of_bool v"] b
  have "(bits_set w f_center v) AND f_zero = w AND f_zero"
    by (cases v) (simp_all add: bits_set_def f_center_def f_zero_def)
  then show ?thesis by (simp add: bits_get_def)
qed

lemma maybe_enable_frame:
  "output_pose (snd (maybe_enable_center_on_tracking_started s np p)) = output_pose p
   \<and> raw_6dof (snd (maybe_enable_center_on_tracking_started s np p)) = raw_6dof p
   \<and> bits_get (p_b (snd (maybe_enable_center_on_tracking_started s np p))) f_zero
       = bits_get (p_b p) f_zero"
  by (simp add: maybe_enable_center_on_tracking_started_def Let_def bits_zero_after_center)

lemma store_tracker_pose_frame:
  "output_pose (store_tracker_pose e v p) = output_pose p
   \<and> raw_6dof (store_tracker_pose e v p) = raw_6dof p
   \<and> p_b (store_tracker_pose e v p) = p_b p"
  by (simp add: store_tracker_pose_def)

lemma maybe_set_center_pose_frame:
  "output_pose (maybe_set_center_pose v own p) = output_pose p
   \<and> raw_6dof (maybe_set_center_pose v own p) = raw_6dof p
   \<and> p_b (maybe_set_center_pose v own p) = p_b p"
  by (simp add: maybe_set_center_pose_def)

lemma compute_frame:
  "output_pose (snd (compute e s m co own p)) = output_pose p
   \<and> raw_6dof (snd (compute e s m co own p)) = raw_6dof p
   \<and> bits_get (p_b (snd (compute e s m co own p))) f_zero = bits_get (p_b p) f_zero"
  by (simp add: compute_def Let_def split_beta maybe_enable_frame store_tracker_pose_frame
      maybe_set_center_pose_frame split: option.split)

lemma label_error_result:
  "fst (label_error m p) =
     apply_zero_pos m (if bits_get (p_b p) f_zero
                       then fold (\<lambda>i v. v[i := 0]) [0..<6] (output_pose p) else output_pose p)
   \<and> output_pose (snd (label_error m p)) = fst (label_error m p)
   \<and> raw_6dof (snd (label_error m p)) = raw_6dof p"
  by (simp add: label_error_def label_ok_def Let_def bits_zero_after_center)

lemma logic_hold:
  "hold_ordered (p_b p) \<Longrightarrow>
   logic e s m p = label_error m (snd (compute e s m
     (bits_get (p_b p) (f_center OR f_held_center) \<and> tracking_started p)
     ((bits_get (p_b p) (f_center OR f_held_center) \<and> tracking_started p) \<and> tracker_center e) p))"
  by (simp add: logic_def Let_def split_beta split: option.split)

lemma logic_fault:
  "tracker_data e = None \<Longrightarrow> logic e s m p = label_error m p"
  by (simp add: logic_def compute_def Let_def)

text \<open>
  C3. The hold decision of a cycle is EnabledPersistent XOR EnabledHold. When it is true
  the cycle ends on the freeze path whether or not a numeric fault occurred: the pose it
  computed is dropped, the pose published is the previous \<open>output_pose\<close> (set to 0 under
  the Zero command) with the zero-offsets applied, and the raw pose stored is the
  previous \<open>raw_6dof\<close>. A cycle whose tracker data fail the numeric check publishes and
  stores the same from the same state.
\<close>

theorem hold_takes_freeze_path:
  "hold_ordered (p_b p) = (bits_get (p_b p) f_enabled_p \<noteq> bits_get (p_b p) f_enabled_h)
   \<and> (hold_ordered (p_b p) \<and> tracker_data e' = None \<longrightarrow>
        fst (logic e s m p) =
          apply_zero_pos m (if bits_get (p_b p) f_zero
                            then fold (\<lambda>i v. v[i := 0]) [0..<6] (output_pose p)
                            else output_pose p)
        \<and> output_pose (snd (logic e s m p)) = fst (logic e s m p)
        \<and> raw_6dof (snd (logic e s m p)) = raw_6dof p
        \<and> fst (logic e s m p) = fst (logic e' s m p)
        \<and> output_pose (snd (logic e s m p)) = output_pose (snd (logic e' s m p))
        \<and> raw_6dof (snd (logic e s m p)) = raw_6dof (snd (logic e' s m p)))"
  by (simp add: hold_ordered_def [symmetric] logic_hold logic_fault label_error_result compute_frame)
     (simp add: hold_ordered_def)


lemma bits_init_value: "bits_init = 12"
  by (simp add: bits_init_def bits_set_def f_center_def f_held_center_def f_enabled_p_def
      f_enabled_h_def f_zero_def)

theorem hold_takes_freeze_path_witness:
  "hold_ordered (p_b (sample_pipeline [7, 7, 7, 7, 7, 7] f_enabled_p))
   \<and> tracker_data (sample_ext eye None 0 0) = None
   \<and> fst (logic (sample_ext eye (Some [1, 0, 0, 0, 0, 0]) 0 0) (sample_settings reltrans_disabled)
        (sample_maps 1) (sample_pipeline [7, 7, 7, 7, 7, 7] f_enabled_p)) = [8, 7, 7, 7, 7, 7]
   \<and> raw_6dof (snd (logic (sample_ext eye (Some [1, 0, 0, 0, 0, 0]) 0 0)
        (sample_settings reltrans_disabled) (sample_maps 1)
        (sample_pipeline [7, 7, 7, 7, 7, 7] f_enabled_p))) = [0, 0, 0, 0, 0, 0]
   \<and> fst (logic (sample_ext eye None 0 0) (sample_settings reltrans_disabled)
        (sample_maps 1) (sample_pipeline [7, 7, 7, 7, 7, 7] f_enabled_p)) = [8, 7, 7, 7, 7, 7]"
proof -
  have h: "hold_ordered (p_b (sample_pipeline [7, 7, 7, 7, 7, 7] f_enabled_p))"
    by (simp add: hold_ordered_def bits_get_def sample_pipeline_def f_enabled_p_def f_enabled_h_def)
  have t: "tracker_data (sample_ext eye None 0 0) = None" by (simp add: sample_ext_def)
  have z: "\<not> bits_get (p_b (sample_pipeline [7, 7, 7, 7, 7, 7] f_enabled_p)) f_zero"
    by (simp add: bits_get_def sample_pipeline_def f_enabled_p_def f_zero_def)
  have o: "output_pose (sample_pipeline [7, 7, 7, 7, 7, 7] f_enabled_p) = [7, 7, 7, 7, 7, 7]"
    and r: "raw_6dof (sample_pipeline [7, 7, 7, 7, 7, 7] f_enabled_p) = [0, 0, 0, 0, 0, 0]"
    by (simp_all add: sample_pipeline_def)
  have a: "apply_zero_pos (sample_maps 1) [7, 7, 7, 7, 7, 7] = [8, 7, 7, 7, 7, 7]"
    by (simp add: apply_zero_pos_def sample_maps_def upt_0_6)
  from hold_takes_freeze_path [of "sample_pipeline [7, 7, 7, 7, 7, 7] f_enabled_p"
      "sample_ext eye None 0 0" "sample_ext eye (Some [1, 0, 0, 0, 0, 0]) 0 0"
      "sample_settings reltrans_disabled" "sample_maps 1"] h t
  show ?thesis by (auto simp add: z o r a)
qed


lemma label_ok_zero_bit:
  "bits_get (p_b (snd (label_ok m p v raw))) f_zero = bits_get (p_b p) f_zero"
  by (simp add: label_ok_def Let_def bits_zero_after_center)

lemma logic_zero_bit:
  "bits_get (p_b (snd (logic e s m p))) f_zero = bits_get (p_b p) f_zero"
  by (simp add: logic_def Let_def split_beta label_error_def label_ok_zero_bit compute_frame
      split: option.split)

lemma sample_zero_offset:
  "length v = 6 \<Longrightarrow> apply_zero_pos (sample_maps z) v = v[0 := v ! 0 + z]"
proof -
  assume "length v = 6"
  then obtain a b c d f g where "v = [a, b, c, d, f, g]"
    by (cases v; simp; cases "tl v"; simp; cases "tl (tl v)"; simp;
        cases "tl (tl (tl v))"; simp; cases "tl (tl (tl (tl v)))"; simp;
        cases "tl (tl (tl (tl (tl v))))"; simp)
  then show ?thesis by (simp add: apply_zero_pos_def sample_maps_def upt_0_6)
qed


lemma sample_select: "get_selected_axis_values (sample_maps 1) [1, 0, 0, 0, 0, 0]
   = ([1, 0, 0, 0, 0, 0], [1, 0, 0, 0, 0, 0], [False, False, False, False, False, False])"
  by (simp add: get_selected_axis_values_def sample_maps_def upt_0_6 Let_def)

lemma sample_clamp: "clamp_value [1, 0, 0, 0, 0, 0] = [1, 0, 0, 0, 0, 0]"
  by (simp add: clamp_eval)

lemma sample_tracking_started: "maybe_enable_center_on_tracking_started (sample_settings reltrans_disabled)
    [1, 0, 0, 0, 0, 0] (sample_pipeline out w)
   = (False, (sample_pipeline out w)\<lparr>tracking_started := True\<rparr>)"
  by (simp add: maybe_enable_center_on_tracking_started_def sample_settings_def
      sample_pipeline_def upt_0_6 Let_def)


lemma sample_store: "store_tracker_pose (sample_ext eye td dt pt) v
     ((sample_pipeline out w)\<lparr>tracking_started := True\<rparr>)
   = (sample_pipeline out w)\<lparr>tracking_started := True\<rparr>"
  by (simp add: store_tracker_pose_def sample_ext_def sample_pipeline_def)

lemma sample_no_center: "maybe_set_center_pose v False ((sample_pipeline out bits_init)\<lparr>tracking_started := True\<rparr>)
   = (sample_pipeline out bits_init)\<lparr>tracking_started := True\<rparr>"
  by (simp add: maybe_set_center_pose_def sample_pipeline_def bits_init_value bits_get_def
      f_center_def f_held_center_def)

lemma sample_apply_center: "apply_center (sample_ext eye td dt pt) (sample_maps 1)
     ((sample_pipeline out w)\<lparr>tracking_started := True\<rparr>) [1, 0, 0, 0, 0, 0]
   = [1, 0, 0, 0, 0, 0]"
  by (simp add: apply_center_def sample_ext_def sample_maps_def sample_pipeline_def
      reltrans_rotate_def vec_defs eye_def axis_defs upt_0_3 Let_def)

lemma sample_no_filter: "maybe_apply_filter (sample_ext R td dt pt) v = Some v"
  by (simp add: maybe_apply_filter_def sample_ext_def)

lemma sample_curves: "map_axes (sample_ext R td dt pt) (sample_maps 1) [3..<6] [1, 0, 0, 0, 0, 0]
     = Some [1, 0, 0, 0, 0, 0]
   \<and> map_axes (sample_ext R td dt pt) (sample_maps 1) [0..<3] [1, 0, 0, 0, 0, 0]
     = Some [1, 0, 0, 0, 0, 0]"
  by (simp add: upt_3_6 upt_0_3 pipeline_map_def sample_ext_def sample_maps_def upt_0_6)

lemma sample_reltrans_off: "fst (apply_reltrans e (sample_settings reltrans_disabled) [1, 0, 0, 0, 0, 0]
     [False, False, False, False, False, False] False r) = [1, 0, 0, 0, 0, 0]"
  by (simp add: apply_reltrans_def apply_pipeline_def sample_settings_def axis_defs upt_0_6
      Let_def)


lemma compute_Some:
  assumes "tracker_data e = Some np"
    and "get_selected_axis_values m np = (raw, v0, dis)"
    and "maybe_enable_center_on_tracking_started s np p = (c, p1)"
    and "maybe_set_center_pose (clamp_value v0) own (store_tracker_pose e (clamp_value v0) p1) = p3"
    and "maybe_apply_filter e (apply_center e m p3 (clamp_value v0)) = Some tmp"
    and "map_axes e m [3..<6] (if \<not> co then tmp else apply_center e m p3 (clamp_value v0)) = Some v4"
    and "apply_reltrans e s v4 dis co (p_rel p3) = (v5, r)"
    and "map_axes e m [0..<3] v5 = Some v6"
  shows "compute e s m co own p = (Some (v6, raw), p3\<lparr>p_rel := r\<rparr>)"
  by (simp only: compute_def assms Let_def option.case prod.case)

lemma sample_compute: "fst (compute (sample_ext eye (Some [1, 0, 0, 0, 0, 0]) 0 0)
     (sample_settings reltrans_disabled) (sample_maps 1) False False
     (sample_pipeline out bits_init)) = Some ([1, 0, 0, 0, 0, 0], [1, 0, 0, 0, 0, 0])"
proof -
  let ?e = "sample_ext eye (Some [1, 0, 0, 0, 0, 0]) 0 0"
  let ?p1 = "(sample_pipeline out bits_init)\<lparr>tracking_started := True\<rparr>"
  let ?a = "apply_reltrans ?e (sample_settings reltrans_disabled) [1, 0, 0, 0, 0, 0]
     [False, False, False, False, False, False] False (p_rel ?p1)"
  have t: "tracker_data ?e = Some [1, 0, 0, 0, 0, 0]"
    by (simp add: sample_ext_def)
  have c: "maybe_set_center_pose (clamp_value [1, 0, 0, 0, 0, 0]) False
      (store_tracker_pose ?e (clamp_value [1, 0, 0, 0, 0, 0]) ?p1) = ?p1"
    by (simp only: sample_clamp sample_store sample_no_center)
  have f: "maybe_apply_filter ?e (apply_center ?e (sample_maps 1) ?p1 (clamp_value [1, 0, 0, 0, 0, 0]))
      = Some [1, 0, 0, 0, 0, 0]"
    by (simp only: sample_clamp sample_apply_center sample_no_filter)
  have m3: "map_axes ?e (sample_maps 1) [3..<6]
      (if \<not> False then [1, 0, 0, 0, 0, 0]
       else apply_center ?e (sample_maps 1) ?p1 (clamp_value [1, 0, 0, 0, 0, 0]))
      = Some [1, 0, 0, 0, 0, 0]"
    using sample_curves by simp
  have a: "?a = ([1, 0, 0, 0, 0, 0], snd ?a)"
    using sample_reltrans_off [of ?e "p_rel ?p1"] by (metis prod.collapse)
  have m0: "map_axes ?e (sample_maps 1) [0..<3] [1, 0, 0, 0, 0, 0] = Some [1, 0, 0, 0, 0, 0]"
    using sample_curves by simp
  show ?thesis
    by (simp only: compute_Some [OF t sample_select sample_tracking_started c f m3 a m0] fst_conv)
qed

lemma sample_flags: "bits_get (p_b (sample_pipeline out bits_init)) (f_center OR f_held_center) = False
  \<and> hold_ordered (p_b (sample_pipeline out bits_init)) = False
  \<and> bits_get (p_b (sample_pipeline out bits_init)) f_zero = False"
  by (simp add: sample_pipeline_def bits_init_value bits_get_def hold_ordered_def
      f_center_def f_held_center_def f_enabled_p_def f_enabled_h_def f_zero_def)

lemma good_cycle:
  "output_pose (snd (logic (sample_ext eye (Some [1, 0, 0, 0, 0, 0]) 0 0)
     (sample_settings reltrans_disabled) (sample_maps 1)
     (sample_pipeline [0, 0, 0, 0, 0, 0] bits_init))) = [2, 0, 0, 0, 0, 0]"
proof -
  let ?c = "compute (sample_ext eye (Some [1, 0, 0, 0, 0, 0]) 0 0)
     (sample_settings reltrans_disabled) (sample_maps 1) False False
     (sample_pipeline [0, 0, 0, 0, 0, 0] bits_init)"
  have z: "\<not> bits_get (p_b (snd ?c)) f_zero"
    by (simp add: compute_frame sample_flags)
  have "logic (sample_ext eye (Some [1, 0, 0, 0, 0, 0]) 0 0)
     (sample_settings reltrans_disabled) (sample_maps 1)
     (sample_pipeline [0, 0, 0, 0, 0, 0] bits_init)
     = label_ok (sample_maps 1) (snd ?c) [1, 0, 0, 0, 0, 0] [1, 0, 0, 0, 0, 0]"
    by (simp add: logic_def sample_flags sample_compute split_beta Let_def)
  then show ?thesis
    using z by (simp add: label_ok_def Let_def bits_zero_after_center sample_zero_offset)
qed

lemma fault_cycle:
  "tracker_data e = None \<Longrightarrow> \<not> bits_get (p_b p) f_zero \<Longrightarrow> length (output_pose p) = 6 \<Longrightarrow>
   output_pose (snd (logic e s (sample_maps z) p)) = (output_pose p)[0 := output_pose p ! 0 + z]"
  by (simp add: logic_fault label_error_result sample_zero_offset)

text \<open>
  Where every zero-offset is 0 and the Zero command is off, a cycle whose tracker data
  fail the numeric check republishes the previous output as it is.
\<close>

lemma freeze_without_offsets:
  assumes "tracker_data e = None" and "\<not> bits_get (p_b p) f_zero"
    and "list_all (\<lambda>i. opts_zero (m ! i) = 0) [0..<6]"
  shows "output_pose (snd (logic e s m p)) = output_pose p"
proof -
  have "apply_zero_pos m v = v" for v
    using assms(3) by (simp add: apply_zero_pos_def upt_0_6)
  then show ?thesis
    using assms(1,2) by (simp add: logic_fault label_error_result)
qed

text \<open>
  C2. The claim: two consecutive freeze cycles publish the same pose, the last good one,
  for every axis-map configuration, nonzero zero-offsets included. Evaluated on the
  code with the zero-offset of TX set to 1 and the Zero command off: a good cycle
  publishes (2, 0, 0, 0, 0, 0), and the two cycles after it, whose tracker data fail the
  numeric check, publish (3, 0, 0, 0, 0, 0) and (4, 0, 0, 0, 0, 0). The freeze path takes
  the published pose, which holds the zero-offset already, and \<open>apply_zero_pos\<close> adds
  the offset again.
\<close>

theorem freeze_reapplies_zero_offset:
  "output_pose (snd (logic (sample_ext eye (Some [1, 0, 0, 0, 0, 0]) 0 0)
      (sample_settings reltrans_disabled) (sample_maps 1)
      (sample_pipeline [0, 0, 0, 0, 0, 0] bits_init))) = [2, 0, 0, 0, 0, 0]
   \<and> output_pose (snd (logic (sample_ext eye None 0 0)
      (sample_settings reltrans_disabled) (sample_maps 1)
      (snd (logic (sample_ext eye (Some [1, 0, 0, 0, 0, 0]) 0 0)
        (sample_settings reltrans_disabled) (sample_maps 1)
        (sample_pipeline [0, 0, 0, 0, 0, 0] bits_init))))) = [3, 0, 0, 0, 0, 0]
   \<and> output_pose (snd (logic (sample_ext eye None 0 0)
      (sample_settings reltrans_disabled) (sample_maps 1)
      (snd (logic (sample_ext eye None 0 0)
        (sample_settings reltrans_disabled) (sample_maps 1)
        (snd (logic (sample_ext eye (Some [1, 0, 0, 0, 0, 0]) 0 0)
          (sample_settings reltrans_disabled) (sample_maps 1)
          (sample_pipeline [0, 0, 0, 0, 0, 0] bits_init))))))) = [4, 0, 0, 0, 0, 0]"
proof -
  let ?p1 = "snd (logic (sample_ext eye (Some [1, 0, 0, 0, 0, 0]) 0 0)
      (sample_settings reltrans_disabled) (sample_maps 1)
      (sample_pipeline [0, 0, 0, 0, 0, 0] bits_init))"
  let ?p2 = "snd (logic (sample_ext eye None 0 0)
      (sample_settings reltrans_disabled) (sample_maps 1) ?p1)"
  have t: "tracker_data (sample_ext eye None 0 0) = None" by (simp add: sample_ext_def)
  have z1: "\<not> bits_get (p_b ?p1) f_zero" by (simp add: logic_zero_bit sample_flags)
  then have z2: "\<not> bits_get (p_b ?p2) f_zero" by (simp add: logic_zero_bit)
  have o1: "output_pose ?p1 = [2, 0, 0, 0, 0, 0]" by (rule good_cycle)
  have o2: "output_pose ?p2 = [3, 0, 0, 0, 0, 0]"
    using fault_cycle [OF t z1, of "sample_settings reltrans_disabled" 1] by (simp add: o1)
  have o3: "output_pose (snd (logic (sample_ext eye None 0 0)
      (sample_settings reltrans_disabled) (sample_maps 1) ?p2)) = [4, 0, 0, 0, 0, 0]"
    using fault_cycle [OF t z2, of "sample_settings reltrans_disabled" 1] by (simp add: o2)
  show ?thesis using o1 o2 o3 by simp
qed

end
